theory Spec2Isabelle
  imports Complex_Main
begin

section \<open>Thrown values\<close>

text \<open>
  The objects that \<open>useContract\<close> and \<open>getRpcProvider\<close> throw and catch. Besides its
  \<open>message\<close>, an error may carry a revert payload in one of the three places that
  \<open>extractRevertData\<close> inspects:
  \<^verbatim>\<open>{ data?: string; error?: { data?: string }; info?: { error?: { data?: string } } }\<close>
  An absent field is \<open>None\<close>.
\<close>

record data_holder =
  inner_data :: "string option"

record info_holder =
  info_error :: "data_holder option"

record js_error =
  message :: string
  data :: "string option"
  error :: "data_holder option"
  info :: "info_holder option"

text \<open>\<^verbatim>\<open>new Error(msg)\<close>: a message and none of the payload fields.\<close>

definition new_Error :: "string \<Rightarrow> js_error" where
  "new_Error msg = \<lparr>message = msg, data = None, error = None, info = None\<rparr>"

section \<open>The client instance and its read sequencing\<close>

text \<open>
  The mutable variables one \<open>useContract\<close> call closes over: the counter
  \<open>latestFetchId\<close> and the refs \<open>loading\<close> and \<open>submitting\<close>. The counter is a JS
  number that only ever takes the values 0, 1, 2, ...; it is modelled as a natural number.
\<close>

record client_state =
  latestFetchId :: nat
  loading :: bool
  submitting :: bool

definition initial_client :: client_state where
  "initial_client = \<lparr>latestFetchId = 0, loading = False, submitting = False\<rparr>"

text \<open>
  \<open>fetchData\<close> runs in two uninterrupted segments, separated by \<^verbatim>\<open>await fetcher()\<close>.
  The first segment issues the token and raises \<open>loading\<close>:
  \<^verbatim>\<open>const fetchId = ++latestFetchId; loading.value = true;\<close>
\<close>

definition fetchData_issue :: "client_state \<Rightarrow> nat \<times> client_state" where
  "fetchData_issue st =
     (let fetchId = Suc (latestFetchId st)
      in (fetchId, st\<lparr>latestFetchId := fetchId, loading := True\<rparr>))"

text \<open>
  The second segment runs when the awaited fetcher has settled, with \<open>Inl e\<close> for a
  rejection and \<open>Inr result\<close> for a value, in whatever state the instance then has:
  \<^verbatim>\<open>
  try {
    const result = await fetcher();
    if (fetchId !== latestFetchId) { throw new Error('Stale fetch result'); }
    return result;
  } catch (e) {
    if (fetchId === latestFetchId) { throw e; }
    throw new Error('Stale fetch result');
  } finally {
    if (fetchId === latestFetchId) { loading.value = false; }
  }
  \<close>
  The \<open>throw\<close> of the \<open>try\<close> block is caught by the \<open>catch\<close> block of the same
  statement, so the model runs the three blocks one after the other. The first component
  of the result is what the caller of \<open>fetchData\<close> receives.
\<close>

definition fetchData_try :: "nat \<Rightarrow> js_error + 'a \<Rightarrow> client_state \<Rightarrow> js_error + 'a" where
  "fetchData_try fetchId awaited st =
     (case awaited of
        Inl e \<Rightarrow> Inl e
      | Inr result \<Rightarrow>
          if fetchId \<noteq> latestFetchId st then Inl (new_Error ''Stale fetch result'')
          else Inr result)"

definition fetchData_catch :: "nat \<Rightarrow> js_error + 'a \<Rightarrow> client_state \<Rightarrow> js_error + 'a" where
  "fetchData_catch fetchId tried st =
     (case tried of
        Inl e \<Rightarrow>
          if fetchId = latestFetchId st then Inl e
          else Inl (new_Error ''Stale fetch result'')
      | Inr result \<Rightarrow> Inr result)"

definition fetchData_finally :: "nat \<Rightarrow> client_state \<Rightarrow> client_state" where
  "fetchData_finally fetchId st =
     (if fetchId = latestFetchId st then st\<lparr>loading := False\<rparr> else st)"

definition fetchData_settle ::
  "nat \<Rightarrow> js_error + 'a \<Rightarrow> client_state \<Rightarrow> (js_error + 'a) \<times> client_state" where
  "fetchData_settle fetchId awaited st =
     (fetchData_catch fetchId (fetchData_try fetchId awaited st) st,
      fetchData_finally fetchId st)"

text \<open>
  Overlapping reads on one instance are a sequence of such segments: a new call being
  issued, or the fetcher of the call with a given token settling. \<open>run\<close> executes a
  schedule and records, in order, what each settled call delivered to its own caller.
\<close>

datatype 'a event = Issue | Settle nat "js_error + 'a"

fun run ::
  "'a event list \<Rightarrow> client_state \<Rightarrow> (nat \<times> (js_error + 'a)) list \<Rightarrow>
   client_state \<times> (nat \<times> (js_error + 'a)) list" where
  "run [] st delivered = (st, delivered)"
| "run (Issue # evs) st delivered = run evs (snd (fetchData_issue st)) delivered"
| "run (Settle fetchId awaited # evs) st delivered =
     (case fetchData_settle fetchId awaited st of
        (r, st') \<Rightarrow> run evs st' (delivered @ [(fetchId, r)]))"

section \<open>Conversion helpers\<close>

text \<open>
  The raw values the helpers receive (\<^verbatim>\<open>v: unknown\<close>), by the cases that
  \<^verbatim>\<open>typeof\<close> tells apart. A JS number is NaN, an infinity or a finite value; the finite
  doubles are rational numbers, and the model admits every rational. \<open>JObject\<close> stands
  for any object, function or symbol.
\<close>

datatype number = NaN | PosInfinity | NegInfinity | Finite rat

datatype js_value =
    JUndefined
  | JNull
  | JBoolean bool
  | JNumber number
  | JBigInt int
  | JString string
  | JObject

definition typeof :: "js_value \<Rightarrow> string" where
  "typeof v =
     (case v of
        JUndefined \<Rightarrow> ''undefined''
      | JNull \<Rightarrow> ''object''
      | JBoolean _ \<Rightarrow> ''boolean''
      | JNumber _ \<Rightarrow> ''number''
      | JBigInt _ \<Rightarrow> ''bigint''
      | JString _ \<Rightarrow> ''string''
      | JObject \<Rightarrow> ''object'')"

text \<open>
  What the built-in conversions throw. \<^verbatim>\<open>BigInt(v)\<close> on a number throws a RangeError
  unless the number is an integer, and returns that integer otherwise. The conversions
  that parse a string or round a big integer (\<^verbatim>\<open>BigInt(string)\<close>, \<^verbatim>\<open>Number(string)\<close>,
  \<^verbatim>\<open>Number(bigint)\<close>) belong to the language, not to this repository; the helpers take
  them as parameters.
\<close>

datatype builtin_error = RangeError | SyntaxError

definition BigInt_of_number :: "number \<Rightarrow> builtin_error + int" where
  "BigInt_of_number n =
     (case n of
        Finite q \<Rightarrow> if of_int \<lfloor>q\<rfloor> = q then Inr \<lfloor>q\<rfloor> else Inl RangeError
      | _ \<Rightarrow> Inl RangeError)"

text \<open>
  A default parameter (\<^verbatim>\<open>fallback: bigint = 0n\<close>) takes its default when the argument
  is omitted: \<open>None\<close>.
  \<^verbatim>\<open>
  if (typeof v === 'bigint') return v;
  if (typeof v === 'number') return BigInt(v);
  if (typeof v === 'string') { try { return BigInt(v); } catch { return fallback; } }
  return fallback;
  \<close>
\<close>

definition asBigInt ::
  "(string \<Rightarrow> builtin_error + int) \<Rightarrow> js_value \<Rightarrow> int option \<Rightarrow> builtin_error + int" where
  "asBigInt BigInt_of_string v fallback_arg =
     (let fallback = (case fallback_arg of None \<Rightarrow> 0 | Some f \<Rightarrow> f)
      in case v of
           JBigInt b \<Rightarrow> Inr b
         | JNumber n \<Rightarrow> BigInt_of_number n
         | JString s \<Rightarrow>
             (case BigInt_of_string s of Inl _ \<Rightarrow> Inr fallback | Inr b \<Rightarrow> Inr b)
         | _ \<Rightarrow> Inr fallback)"

text \<open>
  \<^verbatim>\<open>
  if (typeof v === 'boolean') return v;
  if (typeof v === 'bigint') return v !== 0n;
  if (typeof v === 'number') return v !== 0;
  if (typeof v === 'string') return v === 'true' || v === '1';
  return fallback;
  \<close>
\<close>

definition asBoolean :: "js_value \<Rightarrow> bool option \<Rightarrow> bool" where
  "asBoolean v fallback_arg =
     (let fallback = (case fallback_arg of None \<Rightarrow> False | Some f \<Rightarrow> f)
      in case v of
           JBoolean b \<Rightarrow> b
         | JBigInt b \<Rightarrow> b \<noteq> 0
         | JNumber n \<Rightarrow> n \<noteq> Finite 0
         | JString s \<Rightarrow> s = ''true'' \<or> s = ''1''
         | _ \<Rightarrow> fallback)"

text \<open>
  \<^verbatim>\<open>
  if (typeof v === 'number') return v;
  if (typeof v === 'bigint') return Number(v);
  if (typeof v === 'string') return Number(v);
  return fallback;
  \<close>
\<close>

definition asNumber ::
  "(string \<Rightarrow> number) \<Rightarrow> (int \<Rightarrow> number) \<Rightarrow> js_value \<Rightarrow> number option \<Rightarrow> number" where
  "asNumber Number_of_string Number_of_bigint v fallback_arg =
     (let fallback = (case fallback_arg of None \<Rightarrow> Finite 0 | Some f \<Rightarrow> f)
      in case v of
           JNumber n \<Rightarrow> n
         | JBigInt b \<Rightarrow> Number_of_bigint b
         | JString s \<Rightarrow> Number_of_string s
         | _ \<Rightarrow> fallback)"

text \<open>
  \<^verbatim>\<open>
  if (typeof v === 'string') return v;
  return fallback;
  \<close>
\<close>

definition asString :: "js_value \<Rightarrow> string option \<Rightarrow> string" where
  "asString v fallback_arg =
     (let fallback = (case fallback_arg of None \<Rightarrow> [] | Some f \<Rightarrow> f)
      in case v of JString s \<Rightarrow> s | _ \<Rightarrow> fallback)"

section \<open>Rendering a chain id\<close>

text \<open>
  The error messages interpolate the chain id (\<^verbatim>\<open>`... ${chainId}`\<close>). Chain ids are
  integers; an integer is rendered in decimal, with a minus sign when negative.
\<close>

fun show_nat :: "nat \<Rightarrow> string" where
  "show_nat n =
     (if n < 10 then [''0123456789'' ! n]
      else show_nat (n div 10) @ [''0123456789'' ! (n mod 10)])"

declare show_nat.simps [simp del]

definition show_int :: "int \<Rightarrow> string" where
  "show_int i = (if i < 0 then CHR ''-'' # show_nat (nat (- i)) else show_nat (nat i))"

section \<open>Endpoint pool and provider cache (utils/rpc-provider.ts)\<close>

text \<open>
  The table of the module, in its order. The functions below take the table as a
  parameter, so that the branch for an empty list of endpoints is covered as well;
  \<open>RPC_ENDPOINTS\<close> is the table they are called with.
\<close>

definition RPC_ENDPOINTS :: "int \<Rightarrow> string list option" where
  "RPC_ENDPOINTS = map_of
     [(56, [''https://bsc-rpc.publicnode.com'',
            ''https://bsc.blockrazor.xyz'',
            ''https://bsc.drpc.org'']),
      (97, [''https://bsc-testnet-rpc.publicnode.com'',
            ''https://bsc-testnet.public.blastapi.io'',
            ''https://bsc-testnet.drpc.org'']),
      (1, [''https://ethereum-rpc.publicnode.com'',
           ''https://0xrpc.io/eth'',
           ''https://eth.drpc.org'']),
      (137, [''https://polygon-rpc.com'',
             ''https://polygon.drpc.org'',
             ''https://rpc.ankr.com/polygon'']),
      (42161, [''https://arb1.arbitrum.io/rpc'',
               ''https://arbitrum.drpc.org'',
               ''https://rpc.ankr.com/arbitrum'']),
      (8453, [''https://mainnet.base.org'',
              ''https://base-rpc.publicnode.com'',
              ''https://base.drpc.org''])]"

text \<open>
  A provider object is the endpoint it was constructed for together with a serial number
  that tells objects apart: two providers constructed for one endpoint are different
  handles. The module state is the cache, the number of providers constructed so far,
  and the endpoints reported by \<^verbatim>\<open>console.warn\<close>, in order.
\<close>

datatype JsonRpcProvider = JsonRpcProvider (url: string) (serial: nat)

record rpc_state =
  providerCache :: "int \<Rightarrow> JsonRpcProvider option"
  constructed :: nat
  warned :: "string list"

definition initial_rpc :: rpc_state where
  "initial_rpc = \<lparr>providerCache = Map.empty, constructed = 0, warned = []\<rparr>"

text \<open>
  The network is the parameter \<open>getBlockNumber\<close>: for a provider object, whether
  \<^verbatim>\<open>await provider.getBlockNumber()\<close> resolves (for a provider constructed in the loop:
  whether the constructor and the probe both complete). Each object is probed at most
  once in one call of \<open>getRpcProvider\<close>.

  The loop over the endpoints:
  \<^verbatim>\<open>
  for (const endpoint of endpoints) {
    try {
      const provider = new JsonRpcProvider(endpoint)
      await provider.getBlockNumber()
      providerCache.set(chainId, provider)
      return provider
    } catch (error) {
      console.warn(`RPC endpoint ${endpoint} failed:`, error)
      continue
    }
  }
  throw new Error(`All RPC endpoints failed for chain ID ${chainId}`)
  \<close>
\<close>

fun tryEndpoints ::
  "(JsonRpcProvider \<Rightarrow> bool) \<Rightarrow> int \<Rightarrow> string list \<Rightarrow> rpc_state \<Rightarrow>
   (js_error + JsonRpcProvider) \<times> rpc_state" where
  "tryEndpoints getBlockNumber chainId [] st =
     (Inl (new_Error (''All RPC endpoints failed for chain ID '' @ show_int chainId)), st)"
| "tryEndpoints getBlockNumber chainId (endpoint # rest) st =
     (let provider = JsonRpcProvider endpoint (constructed st);
          st1 = st\<lparr>constructed := Suc (constructed st)\<rparr>
      in if getBlockNumber provider
         then (Inr provider, st1\<lparr>providerCache := (providerCache st1)(chainId \<mapsto> provider)\<rparr>)
         else tryEndpoints getBlockNumber chainId rest (st1\<lparr>warned := warned st1 @ [endpoint]\<rparr>))"

text \<open>
  The first block of \<open>getRpcProvider\<close>: \<open>Some\<close> handle when the cached provider is
  returned, \<open>None\<close> when the function goes on, after the eviction if there was one.
  \<^verbatim>\<open>
  if (providerCache.has(chainId)) {
    const cachedProvider = providerCache.get(chainId)!
    try { await cachedProvider.getBlockNumber(); return cachedProvider }
    catch { providerCache.delete(chainId) }
  }
  \<close>
\<close>

definition probeCached ::
  "(JsonRpcProvider \<Rightarrow> bool) \<Rightarrow> int \<Rightarrow> rpc_state \<Rightarrow> JsonRpcProvider option \<times> rpc_state" where
  "probeCached getBlockNumber chainId st =
     (case providerCache st chainId of
        None \<Rightarrow> (None, st)
      | Some cachedProvider \<Rightarrow>
          if getBlockNumber cachedProvider then (Some cachedProvider, st)
          else (None, st\<lparr>providerCache := (providerCache st)(chainId := None)\<rparr>))"

text \<open>
  \<^verbatim>\<open>
  const endpoints = RPC_ENDPOINTS[chainId]
  if (!endpoints || endpoints.length === 0) {
    throw new Error(`No RPC endpoints configured for chain ID ${chainId}`)
  }
  \<close>
\<close>

definition getRpcProvider ::
  "(int \<Rightarrow> string list option) \<Rightarrow> (JsonRpcProvider \<Rightarrow> bool) \<Rightarrow> int \<Rightarrow> rpc_state \<Rightarrow>
   (js_error + JsonRpcProvider) \<times> rpc_state" where
  "getRpcProvider table getBlockNumber chainId st =
     (case probeCached getBlockNumber chainId st of
        (Some cachedProvider, st1) \<Rightarrow> (Inr cachedProvider, st1)
      | (None, st1) \<Rightarrow>
          (case table chainId of
             None \<Rightarrow>
               (Inl (new_Error (''No RPC endpoints configured for chain ID '' @ show_int chainId)),
                st1)
           | Some endpoints \<Rightarrow>
               if endpoints = []
               then (Inl (new_Error
                            (''No RPC endpoints configured for chain ID '' @ show_int chainId)),
                     st1)
               else tryEndpoints getBlockNumber chainId endpoints st1))"

definition clearProviderCache :: "rpc_state \<Rightarrow> rpc_state" where
  "clearProviderCache st = st\<lparr>providerCache := Map.empty\<rparr>"

text \<open>\<^verbatim>\<open>return RPC_ENDPOINTS[chainId] || []\<close>; an array, even an empty one, is truthy.\<close>

definition getRpcEndpoints :: "(int \<Rightarrow> string list option) \<Rightarrow> int \<Rightarrow> string list" where
  "getRpcEndpoints table chainId = (case table chainId of None \<Rightarrow> [] | Some endpoints \<Rightarrow> endpoints)"

text \<open>
  The states the module can be in: it starts with an empty cache, and only
  \<open>getRpcProvider\<close> and \<open>clearProviderCache\<close> change it.
\<close>

inductive reachable :: "(int \<Rightarrow> string list option) \<Rightarrow> rpc_state \<Rightarrow> bool"
  for table :: "int \<Rightarrow> string list option" where
  initial: "reachable table initial_rpc"
| get: "reachable table st \<Longrightarrow>
        reachable table (snd (getRpcProvider table getBlockNumber chainId st))"
| clear: "reachable table st \<Longrightarrow> reachable table (clearProviderCache st)"

text \<open>
  The invariant of the reachable states: a cached handle was constructed for an endpoint
  of its chain's pool.
\<close>

definition cache_within_pool :: "(int \<Rightarrow> string list option) \<Rightarrow> rpc_state \<Rightarrow> bool" where
  "cache_within_pool table st \<longleftrightarrow>
     (\<forall>c p. providerCache st c = Some p \<longrightarrow> url p \<in> set (getRpcEndpoints table c))"

section \<open>The signer (stores/web3.ts)\<close>

text \<open>
  What \<open>useContract\<close> reads from the store, through its getters. A wallet exposes its
  channel (\<open>provider\<close>, an opaque handle) and its chains; the number
  \<^verbatim>\<open>Number(connectedChain.value.id)\<close> of a chain is taken as given, an integer.
  \<^verbatim>\<open>
  const wallets = computed(() => onboardState.value?.wallets ?? [])
  const connectedWallet = computed(() => wallets.value[0] ?? null)
  const connectedChain = computed(() => connectedWallet.value?.chains[0] ?? null)
  const chainId = computed(() => connectedChain.value ? Number(connectedChain.value.id) : null)
  const isConnected = computed(() => !!connectedWallet.value)
  \<close>
\<close>

type_synonym channel = nat

record wallet_state =
  provider :: "channel option"
  chains :: "int list"

record web3_store =
  wallets :: "wallet_state list"

definition connectedWallet :: "web3_store \<Rightarrow> wallet_state option" where
  "connectedWallet store = (case wallets store of [] \<Rightarrow> None | w # _ \<Rightarrow> Some w)"

definition connectedChain :: "web3_store \<Rightarrow> int option" where
  "connectedChain store =
     (case connectedWallet store of
        None \<Rightarrow> None
      | Some w \<Rightarrow> (case chains w of [] \<Rightarrow> None | c # _ \<Rightarrow> Some c))"

definition store_chainId :: "web3_store \<Rightarrow> int option" where
  "store_chainId store = connectedChain store"

definition isConnected :: "web3_store \<Rightarrow> bool" where
  "isConnected store \<longleftrightarrow> connectedWallet store \<noteq> None"

text \<open>\<^verbatim>\<open>web3Store.connectedWallet?.provider\<close>\<close>

definition walletProvider :: "web3_store \<Rightarrow> channel option" where
  "walletProvider store =
     (case connectedWallet store of None \<Rightarrow> None | Some w \<Rightarrow> provider w)"

section \<open>Contracts and the connection they run on\<close>

text \<open>
  A \<open>Contract\<close> is its address and its runner: a public RPC provider, a
  \<open>BrowserProvider\<close> over the wallet's channel, or the signer obtained from such a
  \<open>BrowserProvider\<close>. The ABI enters only through \<open>parseError\<close> below.
\<close>

record contract_config =
  address :: string
  chainId :: int

datatype runner =
    RpcRunner JsonRpcProvider
  | BrowserRunner channel
  | SignerRunner channel

record contract =
  target :: string
  runner :: runner

text \<open>The calls that leave the process, in the order a function made them.\<close>

datatype net_call = GetSigner | StaticCall string | SendTransaction string

text \<open>
  \<^verbatim>\<open>
  if (web3Store.isConnected && web3Store.chainId === config.chainId
      && web3Store.connectedWallet?.provider) {
    try {
      const provider = new BrowserProvider(web3Store.connectedWallet.provider);
      return new Contract(config.address, config.abi, provider);
    } catch (e) { console.warn(...) }
  }
  const provider = await getRpcProvider(config.chainId);
  return new Contract(config.address, config.abi, provider);
  \<close>
  \<open>wrap\<close> tells whether the \<open>try\<close> block completes for the channel.
\<close>

definition getReadContract ::
  "(channel \<Rightarrow> bool) \<Rightarrow> (int \<Rightarrow> string list option) \<Rightarrow> (JsonRpcProvider \<Rightarrow> bool) \<Rightarrow>
   contract_config \<Rightarrow> web3_store \<Rightarrow> rpc_state \<Rightarrow> (js_error + contract) \<times> rpc_state" where
  "getReadContract wrap table getBlockNumber config store st =
     (let viaRpc =
            (case getRpcProvider table getBlockNumber (chainId config) st of
               (Inl e, st') \<Rightarrow> (Inl e, st')
             | (Inr p, st') \<Rightarrow> (Inr \<lparr>target = address config, runner = RpcRunner p\<rparr>, st'))
      in if isConnected store \<and> store_chainId store = Some (chainId config)
         then (case walletProvider store of
                 None \<Rightarrow> viaRpc
               | Some ch \<Rightarrow>
                   if wrap ch
                   then (Inr \<lparr>target = address config, runner = BrowserRunner ch\<rparr>, st)
                   else viaRpc)
         else viaRpc)"

text \<open>
  \<^verbatim>\<open>
  if (!web3Store.isConnected || !web3Store.connectedWallet?.provider) {
    throw new Error('Wallet not connected');
  }
  if (web3Store.chainId !== config.chainId) {
    throw new Error(`Wrong network. Please switch to chain ${config.chainId}`);
  }
  const ethersProvider = new BrowserProvider(web3Store.connectedWallet.provider);
  const signer = await ethersProvider.getSigner();
  return new Contract(config.address, config.abi, signer);
  \<close>
  \<open>getSigner\<close> is the wallet's answer on the channel: \<open>None\<close> when it grants the
  signer, the error otherwise.
\<close>

definition getWriteContract ::
  "(channel \<Rightarrow> js_error option) \<Rightarrow> contract_config \<Rightarrow> web3_store \<Rightarrow>
   (js_error + contract) \<times> net_call list" where
  "getWriteContract getSigner config store =
     (case (if isConnected store then walletProvider store else None) of
        None \<Rightarrow> (Inl (new_Error ''Wallet not connected''), [])
      | Some ch \<Rightarrow>
          if store_chainId store \<noteq> Some (chainId config)
          then (Inl (new_Error (''Wrong network. Please switch to chain ''
                                  @ show_int (chainId config))), [])
          else (case getSigner ch of
                  Some e \<Rightarrow> (Inl e, [GetSigner])
                | None \<Rightarrow>
                    (Inr \<lparr>target = address config, runner = SignerRunner ch\<rparr>, [GetSigner])))"

section \<open>Revert payloads and their decoding\<close>

text \<open>
  \<^verbatim>\<open>return e?.data || e?.error?.data || e?.info?.error?.data\<close>
  \<open>a || b\<close> is \<open>a\<close> when \<open>a\<close> is truthy and \<open>b\<close> otherwise; a string is truthy unless
  it is empty, \<open>undefined\<close> is not.
\<close>

definition truthy :: "string option \<Rightarrow> bool" where
  "truthy d = (case d of None \<Rightarrow> False | Some s \<Rightarrow> s \<noteq> [])"

definition js_or :: "string option \<Rightarrow> string option \<Rightarrow> string option" where
  "js_or a b = (if truthy a then a else b)"

definition extractRevertData :: "js_error \<Rightarrow> string option" where
  "extractRevertData e =
     js_or (js_or (data e)
                  (case error e of None \<Rightarrow> None | Some h \<Rightarrow> inner_data h))
           (case info e of
              None \<Rightarrow> None
            | Some i \<Rightarrow> (case info_error i of None \<Rightarrow> None | Some h \<Rightarrow> inner_data h))"

text \<open>
  What \<^verbatim>\<open>iface.parseError(data)\<close> returns: the name of the matched error and its
  arguments, each as \<^verbatim>\<open>String(...)\<close> renders it. The function itself is the parameter
  \<open>parseError\<close>: it returns \<open>Inr None\<close> for \<open>null\<close> (no error of the ABI matches) and
  \<open>Inl\<close> what it throws.
  \<^verbatim>\<open>decoded?.name === 'Error' ? String(decoded?.args?.[0]) : `${decoded?.name}`\<close>
\<close>

record error_description =
  name :: string
  args :: "string list"

definition revert_message :: "error_description option \<Rightarrow> string" where
  "revert_message decoded =
     (case decoded of
        None \<Rightarrow> ''undefined''
      | Some d \<Rightarrow>
          if name d = ''Error''
          then (case args d of [] \<Rightarrow> ''undefined'' | a # _ \<Rightarrow> a)
          else name d)"

text \<open>
  \<^verbatim>\<open>try { body } catch (e) { handler }\<close>: the handler runs on what the body throws.
\<close>

definition try_catch :: "js_error + 'a \<Rightarrow> (js_error \<Rightarrow> js_error + 'a) \<Rightarrow> js_error + 'a" where
  "try_catch body handler = (case body of Inl thrown \<Rightarrow> handler thrown | Inr v \<Rightarrow> Inr v)"

text \<open>
  The handler that \<open>write\<close> has twice, once around the preflight and once around the
  whole body (there with two \<^verbatim>\<open>console.error\<close> calls added):
  \<^verbatim>\<open>
  const iface = new Interface(config.abi);
  const data = extractRevertData(e);
  if (data) {
    try {
      const decoded = iface.parseError(data);
      const msg = decoded?.name === 'Error' ? String(decoded?.args?.[0]) : `${decoded?.name}`;
      throw new Error(msg);
    } catch {
      throw e;
    }
  } else {
    throw e;
  }
  \<close>
  The inner \<open>try\<close> block ends in a \<open>throw\<close>, and its own \<open>catch\<close> receives it.
\<close>

definition decode_handler ::
  "(string \<Rightarrow> js_error + error_description option) \<Rightarrow> js_error \<Rightarrow> js_error + 'a" where
  "decode_handler parseError e =
     (case extractRevertData e of
        None \<Rightarrow> Inl e
      | Some d \<Rightarrow>
          if d \<noteq> []
          then try_catch
                 (case parseError d of
                    Inl thrown \<Rightarrow> Inl thrown
                  | Inr decoded \<Rightarrow> Inl (new_Error (revert_message decoded)))
                 (\<lambda>_. Inl e)
          else Inl e)"

section \<open>write\<close>

text \<open>
  The outside world of one \<open>write\<close>: the wallet's answer to \<open>getSigner\<close>, the outcome
  of the preflight (\<^verbatim>\<open>contract.getFunction(method)\<close> then \<^verbatim>\<open>fn.staticCall(...args)\<close>),
  the outcome of the submission (\<^verbatim>\<open>fn(...args)\<close>, a transaction handle on success) and
  the ABI's \<open>parseError\<close>.
\<close>

type_synonym tx = string

record write_env =
  getSigner :: "channel \<Rightarrow> js_error option"
  staticCall :: "contract \<Rightarrow> string \<Rightarrow> js_value list \<Rightarrow> js_error option"
  send :: "contract \<Rightarrow> string \<Rightarrow> js_value list \<Rightarrow> js_error + tx"
  parseError :: "string \<Rightarrow> js_error + error_description option"

text \<open>
  \<^verbatim>\<open>
  submitting.value = true;
  try {
    const contract = await getWriteContract();
    try {
      const fn = contract.getFunction(method);
      await fn.staticCall(...(args as []));
    } catch (preflightErr: unknown) { ...handler... }
    const fn = contract.getFunction(method);
    const tx = await fn(...(args as []));
    return tx;
  } catch (e: unknown) { ...handler... }
  finally { submitting.value = false; }
  \<close>
  The store is read in the first uninterrupted segment only. The result is what the
  caller receives, the calls that left the process, and the instance once \<open>write\<close>
  has returned.
\<close>

definition write_body ::
  "write_env \<Rightarrow> contract_config \<Rightarrow> web3_store \<Rightarrow> string \<Rightarrow> js_value list \<Rightarrow>
   (js_error + tx) \<times> net_call list" where
  "write_body env config store method arguments =
     (case getWriteContract (getSigner env) config store of
        (Inl e, calls) \<Rightarrow> (Inl e, calls)
      | (Inr c, calls) \<Rightarrow>
          (case try_catch
                  (case staticCall env c method arguments of
                     Some preflightErr \<Rightarrow> Inl preflightErr
                   | None \<Rightarrow> Inr ())
                  (decode_handler (parseError env)) of
             Inl e \<Rightarrow> (Inl e, calls @ [StaticCall method])
           | Inr _ \<Rightarrow>
               (send env c method arguments,
                calls @ [StaticCall method, SendTransaction method])))"

definition "write" ::
  "write_env \<Rightarrow> contract_config \<Rightarrow> web3_store \<Rightarrow> string \<Rightarrow> js_value list \<Rightarrow> client_state \<Rightarrow>
   ((js_error + tx) \<times> net_call list) \<times> client_state" where
  "write env config store method arguments st =
     (case write_body env config store method arguments of
        (outcome, calls) \<Rightarrow>
          ((try_catch outcome (decode_handler (parseError env)), calls),
           st\<lparr>submitting := False\<rparr>))"

text \<open>
  The failing preflight of the example: a wallet on chain 56, a contract on chain 56,
  and a simulation that reverts with the standard \<open>Error(string)\<close> payload for the
  message \<open>Insufficient balance\<close>, which the ABI decodes.
\<close>

definition insufficient_balance_payload :: string where
  "insufficient_balance_payload =
     ''0x08c379a0''
     @ ''0000000000000000000000000000000000000000000000000000000000000020''
     @ ''0000000000000000000000000000000000000000000000000000000000000014''
     @ ''496e73756666696369656e742062616c616e6365000000000000000000000000''"

definition revert_error :: js_error where
  "revert_error =
     \<lparr>message = ''execution reverted: Insufficient balance'',
      data = Some insufficient_balance_payload, error = None, info = None\<rparr>"

definition reverting_env :: write_env where
  "reverting_env =
     \<lparr>getSigner = (\<lambda>_. None),
      staticCall = (\<lambda>_ _ _. Some revert_error),
      send = (\<lambda>_ _ _. Inr ''0xabc''),
      parseError = (\<lambda>d. if d = insufficient_balance_payload
                         then Inr (Some \<lparr>name = ''Error'', args = [''Insufficient balance'']\<rparr>)
                         else Inr None)\<rparr>"

definition wallet_on_56 :: web3_store where
  "wallet_on_56 = \<lparr>wallets = [\<lparr>provider = Some 0, chains = [56]\<rparr>]\<rparr>"

definition token_on_56 :: contract_config where
  "token_on_56 = \<lparr>address = ''0x55d398326f99059fF775485246999027B3197955'', chainId = 56\<rparr>"

text \<open>
  An environment that tells the connections apart: the wallet grants the signer, the
  preflight passes, and the submission answers with the kind of runner it was made on.
\<close>

definition runner_telling_env :: write_env where
  "runner_telling_env =
     \<lparr>getSigner = (\<lambda>_. None),
      staticCall = (\<lambda>_ _ _. None),
      send = (\<lambda>c _ _. case runner c of
                          SignerRunner _ \<Rightarrow> Inr ''signer''
                        | BrowserRunner _ \<Rightarrow> Inr ''browser''
                        | RpcRunner _ \<Rightarrow> Inr ''pool''),
      parseError = (\<lambda>_. Inr None)\<rparr>"

section \<open>Read sequencing: results\<close>

lemmas fetchData_defs =
  fetchData_settle_def fetchData_try_def fetchData_catch_def fetchData_finally_def
  fetchData_issue_def initial_client_def new_Error_def

text \<open>
  C1, as stated: a read that settles with a value after a newer read was issued still
  resolves to its own caller with that value. The code does not do this. With A issued
  first, B second, and A settling after B, the caller of A is handed a rejection, not the
  value 41 that A fetched.
\<close>

theorem stale_success_not_resolved_counterexample:
  "run [Issue, Issue, Settle 2 (Inr (42::int)), Settle 1 (Inr 41)] initial_client []
     = (\<lparr>latestFetchId = 2, loading = False, submitting = False\<rparr>,
        [(2, Inr 42), (1, Inl (new_Error ''Stale fetch result''))])
   \<and> Inl (new_Error ''Stale fetch result'') \<noteq> (Inr 41 :: js_error + int)"
  by (simp add: fetchData_defs)

text \<open>
  C1, amended: a read that settles with a value while its token is no longer the latest
  one is discarded. Its caller receives the rejection \<open>Error('Stale fetch result')\<close> in
  place of the value, and the state of the instance (the counter and both indicators) is
  left exactly as it was.
\<close>

theorem stale_success_rejected:
  assumes "fetchId \<noteq> latestFetchId st"
  shows "fetchData_settle fetchId (Inr result) st
           = (Inl (new_Error ''Stale fetch result''), st)"
  using assms by (simp add: fetchData_defs)

theorem stale_success_rejected_witness:
  "(1::nat) \<noteq> latestFetchId \<lparr>latestFetchId = 2, loading = True, submitting = False\<rparr>
   \<and> fetchData_settle 1 (Inr (41::int)) \<lparr>latestFetchId = 2, loading = True, submitting = False\<rparr>
       = (Inl (new_Error ''Stale fetch result''),
          \<lparr>latestFetchId = 2, loading = True, submitting = False\<rparr>)"
  using stale_success_rejected
    [of 1 "\<lparr>latestFetchId = 2, loading = True, submitting = False\<rparr>" "41::int"]
  by simp

text \<open>
  C3, as stated: the error thrown by the underlying invocation always reaches the caller,
  whether or not a newer token has been issued. The code does not do this. A is issued,
  then B; the fetcher of A rejects with an error whose message is \<open>boom\<close>; the caller of
  A receives a different error.
\<close>

theorem stale_error_replaced_counterexample:
  "run [Issue, Issue, Settle 1 (Inl (new_Error ''boom''))] initial_client []
     = (\<lparr>latestFetchId = 2, loading = True, submitting = False\<rparr>,
        [(1, Inl (new_Error ''Stale fetch result'') :: js_error + int)])
   \<and> new_Error ''Stale fetch result'' \<noteq> new_Error ''boom''"
  by (simp add: fetchData_defs)

text \<open>
  C3, amended: a read whose underlying invocation throws always rejects to its own
  caller. The error delivered is the one the invocation threw when the call's token is
  still the latest one at that moment, and \<open>Error('Stale fetch result')\<close> otherwise.
\<close>

theorem read_error_delivery:
  "fst (fetchData_settle fetchId (Inl e) st)
     = (Inl (if fetchId = latestFetchId st then e else new_Error ''Stale fetch result'')
          :: js_error + 'a)"
  by (simp add: fetchData_defs)

theorem read_error_delivery_witness:
  "fst (fetchData_settle 2 (Inl (new_Error ''boom''))
          \<lparr>latestFetchId = 2, loading = True, submitting = False\<rparr>)
     = (Inl (new_Error ''boom'') :: js_error + int)
   \<and> fst (fetchData_settle 1 (Inl (new_Error ''boom''))
          \<lparr>latestFetchId = 2, loading = True, submitting = False\<rparr>)
     = (Inl (new_Error ''Stale fetch result'') :: js_error + int)"
  using read_error_delivery
    [of 2 "new_Error ''boom''" "\<lparr>latestFetchId = 2, loading = True, submitting = False\<rparr>"]
    read_error_delivery
    [of 1 "new_Error ''boom''" "\<lparr>latestFetchId = 2, loading = True, submitting = False\<rparr>"]
  by simp

text \<open>
  C7: when a read settles, whatever its outcome, the \<open>loading\<close> indicator is cleared if
  the call's token equals the latest issued token at that moment, and is left as it was
  for any other token. Nothing else of the instance changes.
\<close>

theorem loading_cleared_iff_latest:
  "loading (snd (fetchData_settle fetchId awaited st))
     = (if fetchId = latestFetchId st then False else loading st)
   \<and> latestFetchId (snd (fetchData_settle fetchId awaited st)) = latestFetchId st
   \<and> submitting (snd (fetchData_settle fetchId awaited st)) = submitting st"
  by (simp add: fetchData_defs)

theorem loading_cleared_iff_latest_witness:
  "loading (snd (fetchData_settle 2 (Inr (42::int))
       \<lparr>latestFetchId = 2, loading = True, submitting = False\<rparr>)) = False
   \<and> loading (snd (fetchData_settle 1 (Inr (41::int))
       \<lparr>latestFetchId = 2, loading = True, submitting = False\<rparr>)) = True"
  using loading_cleared_iff_latest
    [of 2 "Inr (42::int)" "\<lparr>latestFetchId = 2, loading = True, submitting = False\<rparr>"]
    loading_cleared_iff_latest
    [of 1 "Inr (41::int)" "\<lparr>latestFetchId = 2, loading = True, submitting = False\<rparr>"]
  by simp

section \<open>Conversion helpers: results\<close>

lemma BigInt_of_number_fraction: "BigInt_of_number (Finite (3 / 2)) = Inl RangeError"
  by code_simp

lemma BigInt_of_number_integer: "BigInt_of_number (Finite (of_int i)) = Inr i"
  by (simp add: BigInt_of_number_def)

text \<open>
  The three helpers \<open>asBoolean\<close>, \<open>asNumber\<close> and \<open>asString\<close> contain no operation that
  can throw, and \<open>asBigInt\<close> returns a value on every input that is not a number.
\<close>

lemma asBigInt_returns_off_numbers:
  "typeof v \<noteq> ''number'' \<Longrightarrow> \<exists>b. asBigInt BigInt_of_string v fallback_arg = Inr b"
  by (cases v) (auto simp: asBigInt_def typeof_def Let_def split: sum.splits)

lemma asBigInt_string_fallback:
  "BigInt_of_string s = Inl err \<Longrightarrow>
   asBigInt BigInt_of_string (JString s) (Some fb) = Inr fb"
  by (simp add: asBigInt_def)

text \<open>
  C6: every conversion helper returns a value on every input and never throws. This
  fails for \<open>asBigInt\<close>: the branch for strings catches what \<^verbatim>\<open>BigInt(v)\<close> throws and
  returns the fallback, the branch for numbers calls \<^verbatim>\<open>BigInt(v)\<close> unguarded. On the
  number 1.5 (as on NaN and the infinities) the RangeError escapes, whatever the fallback.
\<close>

theorem asBigInt_throws_on_fraction:
  "asBigInt BigInt_of_string (JNumber (Finite (3 / 2))) fallback_arg = Inl RangeError
   \<and> asBigInt BigInt_of_string (JNumber NaN) fallback_arg = Inl RangeError"
  by (simp add: asBigInt_def BigInt_of_number_fraction) (simp add: BigInt_of_number_def)

text \<open>
  C10: \<open>asNumber\<close> uses its fallback only for an input that is neither a number, a
  bigint nor a string. On such an input the result is the fallback; on a number, a
  bigint or a string the result does not depend on the fallback, and a string that
  \<^verbatim>\<open>Number\<close> does not parse gives NaN.
\<close>

theorem asNumber_fallback_only_for_other_types:
  "(Number_of_string s = NaN \<longrightarrow>
      asNumber Number_of_string Number_of_bigint (JString s) fallback_arg = NaN)
   \<and> (typeof v \<in> {''number'', ''bigint'', ''string''} \<longrightarrow>
      asNumber Number_of_string Number_of_bigint v fallback_arg
        = asNumber Number_of_string Number_of_bigint v other_arg)
   \<and> (typeof v \<notin> {''number'', ''bigint'', ''string''} \<longrightarrow>
      asNumber Number_of_string Number_of_bigint v (Some fb) = fb
      \<and> asNumber Number_of_string Number_of_bigint v None = Finite 0)"
  by (cases v) (simp_all add: asNumber_def typeof_def)

theorem asNumber_fallback_only_for_other_types_witness:
  "(\<lambda>s. if s = ''12'' then Finite 12 else NaN) ''abc'' = NaN
   \<and> asNumber (\<lambda>s. if s = ''12'' then Finite 12 else NaN) (\<lambda>b. Finite (of_int b))
       (JString ''abc'') (Some (Finite 7)) = NaN
   \<and> typeof (JString ''abc'') \<in> {''number'', ''bigint'', ''string''}
   \<and> typeof JNull \<notin> {''number'', ''bigint'', ''string''}
   \<and> asNumber (\<lambda>s. if s = ''12'' then Finite 12 else NaN) (\<lambda>b. Finite (of_int b))
       JNull (Some (Finite 7)) = Finite 7"
  using asNumber_fallback_only_for_other_types
    [of "\<lambda>s. if s = ''12'' then Finite 12 else NaN" "''abc''" "\<lambda>b. Finite (of_int b)"
        "Some (Finite 7)" JNull "None" "Finite 7"]
  by (simp add: typeof_def)

section \<open>Endpoint pool and provider cache: results\<close>

lemma tryEndpoints_first_success:
  assumes "\<forall>i < length failed. \<not> getBlockNumber (JsonRpcProvider (failed ! i) (constructed st + i))"
    and "getBlockNumber (JsonRpcProvider e (constructed st + length failed))"
  shows "tryEndpoints getBlockNumber chain (failed @ e # rest) st
           = (Inr (JsonRpcProvider e (constructed st + length failed)),
              \<lparr>providerCache = (providerCache st)
                     (chain \<mapsto> JsonRpcProvider e (constructed st + length failed)),
               constructed = Suc (constructed st + length failed),
               warned = warned st @ failed\<rparr>)"
  using assms
proof (induction failed arbitrary: st)
  case Nil
  then show ?case by (cases st) (simp add: Let_def fun_upd_def)
next
  case (Cons f fs)
  let ?st1 = "st\<lparr>constructed := Suc (constructed st), warned := warned st @ [f]\<rparr>"
  from Cons.prems(1) have f: "\<not> getBlockNumber (JsonRpcProvider f (constructed st))"
    by force
  have rest_fail: "\<forall>i < length fs. \<not> getBlockNumber (JsonRpcProvider (fs ! i) (constructed ?st1 + i))"
  proof (intro allI impI)
    fix i assume "i < length fs"
    with Cons.prems(1) have "\<not> getBlockNumber (JsonRpcProvider ((f # fs) ! Suc i) (constructed st + Suc i))"
      by (metis Suc_less_eq length_Cons)
    then show "\<not> getBlockNumber (JsonRpcProvider (fs ! i) (constructed ?st1 + i))" by simp
  qed
  have ok: "getBlockNumber (JsonRpcProvider e (constructed ?st1 + length fs))"
    using Cons.prems(2) by simp
  show ?case
    using Cons.IH [OF rest_fail ok] f by (simp add: Let_def)
qed

lemma tryEndpoints_all_fail:
  assumes "\<forall>i < length es. \<not> getBlockNumber (JsonRpcProvider (es ! i) (constructed st + i))"
  shows "tryEndpoints getBlockNumber chain es st
           = (Inl (new_Error (''All RPC endpoints failed for chain ID '' @ show_int chain)),
              \<lparr>providerCache = providerCache st,
               constructed = constructed st + length es,
               warned = warned st @ es\<rparr>)"
  using assms
proof (induction es arbitrary: st)
  case Nil
  then show ?case by simp
next
  case (Cons f fs)
  let ?st1 = "st\<lparr>constructed := Suc (constructed st), warned := warned st @ [f]\<rparr>"
  from Cons.prems have f: "\<not> getBlockNumber (JsonRpcProvider f (constructed st))"
    by force
  have rest_fail: "\<forall>i < length fs. \<not> getBlockNumber (JsonRpcProvider (fs ! i) (constructed ?st1 + i))"
  proof (intro allI impI)
    fix i assume "i < length fs"
    with Cons.prems have "\<not> getBlockNumber (JsonRpcProvider ((f # fs) ! Suc i) (constructed st + Suc i))"
      by (metis Suc_less_eq length_Cons)
    then show "\<not> getBlockNumber (JsonRpcProvider (fs ! i) (constructed ?st1 + i))" by simp
  qed
  show ?case
    using Cons.IH [OF rest_fail] f by (simp add: Let_def)
qed

lemma tryEndpoints_cache:
  "tryEndpoints getBlockNumber chain es st = (r, st') \<Longrightarrow> providerCache st' c = Some p \<Longrightarrow>
   providerCache st c = Some p \<or> (c = chain \<and> url p \<in> set es)"
proof (induction es arbitrary: st)
  case Nil
  then show ?case by simp
next
  case (Cons f fs)
  show ?case
  proof (cases "getBlockNumber (JsonRpcProvider f (constructed st))")
    case True
    with Cons.prems show ?thesis
      by (auto simp: Let_def split: if_splits)
  next
    case False
    with Cons.prems Cons.IH [of "st\<lparr>constructed := Suc (constructed st), warned := warned st @ [f]\<rparr>"]
    show ?thesis
      by (auto simp: Let_def)
  qed
qed

lemma getRpcProvider_cache:
  assumes "getRpcProvider table getBlockNumber chain st = (r, st')"
    and "providerCache st' c = Some p"
  shows "providerCache st c = Some p \<or> url p \<in> set (getRpcEndpoints table c)"
proof (cases "probeCached getBlockNumber chain st")
  case (Pair hit st1)
  have st1: "providerCache st1 c = Some p \<Longrightarrow> providerCache st c = Some p"
    using Pair by (auto simp: probeCached_def split: option.splits if_splits)
  show ?thesis
  proof (cases hit)
    case (Some q)
    with Pair assms st1 show ?thesis by (simp add: getRpcProvider_def)
  next
    case None
    show ?thesis
    proof (cases "table chain")
      case tn: None
      with None Pair assms st1 show ?thesis by (simp add: getRpcProvider_def)
    next
      case (Some es)
      show ?thesis
      proof (cases "es = []")
        case True
        with Some None Pair assms st1 show ?thesis by (simp add: getRpcProvider_def)
      next
        case False
        with Some None Pair assms have "tryEndpoints getBlockNumber chain es st1 = (r, st')"
          by (simp add: getRpcProvider_def)
        from tryEndpoints_cache [OF this assms(2)] st1 Some show ?thesis
          by (auto simp: getRpcEndpoints_def)
      qed
    qed
  qed
qed

lemma reachable_cache_within_pool:
  "reachable table st \<Longrightarrow> cache_within_pool table st"
proof (induction rule: reachable.induct)
  case initial
  then show ?case by (simp add: cache_within_pool_def initial_rpc_def)
next
  case (get st getBlockNumber chain)
  then show ?case
    unfolding cache_within_pool_def
    by (metis getRpcProvider_cache prod.collapse)
next
  case (clear st)
  then show ?case by (simp add: cache_within_pool_def clearProviderCache_def)
qed


lemma getRpcProvider_uncached:
  "providerCache st chain = None \<Longrightarrow>
   getRpcProvider table getBlockNumber chain st =
     (if getRpcEndpoints table chain = []
      then (Inl (new_Error (''No RPC endpoints configured for chain ID '' @ show_int chain)), st)
      else tryEndpoints getBlockNumber chain (getRpcEndpoints table chain) st)"
  by (simp add: getRpcProvider_def probeCached_def getRpcEndpoints_def split: option.splits)

lemma getRpcProvider_evicts:
  "providerCache st chain = Some cached \<Longrightarrow> \<not> getBlockNumber cached \<Longrightarrow>
   getRpcProvider table getBlockNumber chain st =
     getRpcProvider table getBlockNumber chain
       (st\<lparr>providerCache := (providerCache st)(chain := None)\<rparr>)"
  by (simp add: getRpcProvider_def probeCached_def)

text \<open>
  C4: \<open>getRpcProvider\<close> first probes a cached handle. If the probe succeeds, the handle
  is returned and nothing changes. If it fails, the handle is evicted and the call goes
  on as it does without a cached handle. Without one, the endpoints are attempted in the
  configured order: when the candidates \<open>failed\<close> before \<open>e\<close> all fail and \<open>e\<close>
  succeeds, the provider constructed for \<open>e\<close> is cached and returned, exactly the
  candidates of \<open>failed\<close> were skipped (and reported, in order), and no candidate after
  \<open>e\<close> was constructed.
\<close>

theorem getRpcProvider_probe_then_ordered_fallback:
  "(providerCache st chain = Some cached \<and> getBlockNumber cached \<longrightarrow>
      getRpcProvider table getBlockNumber chain st = (Inr cached, st))
   \<and> (providerCache st chain = Some cached \<and> \<not> getBlockNumber cached \<longrightarrow>
      getRpcProvider table getBlockNumber chain st =
        getRpcProvider table getBlockNumber chain
          (st\<lparr>providerCache := (providerCache st)(chain := None)\<rparr>))
   \<and> (providerCache st chain = None
       \<and> getRpcEndpoints table chain = failed @ e # rest
       \<and> (\<forall>i < length failed.
             \<not> getBlockNumber (JsonRpcProvider (failed ! i) (constructed st + i)))
       \<and> getBlockNumber (JsonRpcProvider e (constructed st + length failed)) \<longrightarrow>
      getRpcProvider table getBlockNumber chain st =
        (Inr (JsonRpcProvider e (constructed st + length failed)),
         \<lparr>providerCache = (providerCache st)
                (chain \<mapsto> JsonRpcProvider e (constructed st + length failed)),
          constructed = Suc (constructed st + length failed),
          warned = warned st @ failed\<rparr>))"
proof (intro conjI impI)
  assume "providerCache st chain = Some cached \<and> getBlockNumber cached"
  then show "getRpcProvider table getBlockNumber chain st = (Inr cached, st)"
    by (simp add: getRpcProvider_def probeCached_def)
next
  assume "providerCache st chain = Some cached \<and> \<not> getBlockNumber cached"
  then show "getRpcProvider table getBlockNumber chain st =
        getRpcProvider table getBlockNumber chain
          (st\<lparr>providerCache := (providerCache st)(chain := None)\<rparr>)"
    by (simp add: getRpcProvider_evicts)
next
  assume a: "providerCache st chain = None
       \<and> getRpcEndpoints table chain = failed @ e # rest
       \<and> (\<forall>i < length failed.
             \<not> getBlockNumber (JsonRpcProvider (failed ! i) (constructed st + i)))
       \<and> getBlockNumber (JsonRpcProvider e (constructed st + length failed))"
  then have "getRpcProvider table getBlockNumber chain st =
      tryEndpoints getBlockNumber chain (failed @ e # rest) st"
    by (simp add: getRpcProvider_uncached)
  also have "\<dots> = (Inr (JsonRpcProvider e (constructed st + length failed)),
         \<lparr>providerCache = (providerCache st)
                (chain \<mapsto> JsonRpcProvider e (constructed st + length failed)),
          constructed = Suc (constructed st + length failed),
          warned = warned st @ failed\<rparr>)"
    using a by (intro tryEndpoints_first_success) simp_all
  finally show "getRpcProvider table getBlockNumber chain st =
        (Inr (JsonRpcProvider e (constructed st + length failed)),
         \<lparr>providerCache = (providerCache st)
                (chain \<mapsto> JsonRpcProvider e (constructed st + length failed)),
          constructed = Suc (constructed st + length failed),
          warned = warned st @ failed\<rparr>)" .
qed

lemmas rpc_eval =
  getRpcProvider_def probeCached_def getRpcEndpoints_def RPC_ENDPOINTS_def initial_rpc_def
  new_Error_def show_int_def show_nat.simps Let_def

theorem getRpcProvider_probe_then_ordered_fallback_witness:
  "getRpcProvider RPC_ENDPOINTS (\<lambda>p. url p = ''https://bsc.drpc.org'') 56
      \<lparr>providerCache = [56 \<mapsto> JsonRpcProvider ''https://bsc.drpc.org'' 0],
       constructed = 1, warned = []\<rparr>
     = (Inr (JsonRpcProvider ''https://bsc.drpc.org'' 0),
        \<lparr>providerCache = [56 \<mapsto> JsonRpcProvider ''https://bsc.drpc.org'' 0],
         constructed = 1, warned = []\<rparr>)
   \<and> getRpcProvider RPC_ENDPOINTS (\<lambda>p. url p = ''https://bsc.blockrazor.xyz'') 56
      \<lparr>providerCache = [56 \<mapsto> JsonRpcProvider ''https://bsc.drpc.org'' 0],
       constructed = 1, warned = []\<rparr>
     = getRpcProvider RPC_ENDPOINTS (\<lambda>p. url p = ''https://bsc.blockrazor.xyz'') 56
      \<lparr>providerCache = Map.empty, constructed = 1, warned = []\<rparr>
   \<and> getRpcProvider RPC_ENDPOINTS (\<lambda>p. url p = ''https://bsc.blockrazor.xyz'') 56
      \<lparr>providerCache = Map.empty, constructed = 1, warned = []\<rparr>
     = (Inr (JsonRpcProvider ''https://bsc.blockrazor.xyz'' 2),
        \<lparr>providerCache = [56 \<mapsto> JsonRpcProvider ''https://bsc.blockrazor.xyz'' 2],
         constructed = 3, warned = [''https://bsc-rpc.publicnode.com'']\<rparr>)"
  using
    getRpcProvider_probe_then_ordered_fallback
      [of "\<lparr>providerCache = [56 \<mapsto> JsonRpcProvider ''https://bsc.drpc.org'' 0],
            constructed = 1, warned = []\<rparr>"
          56 "JsonRpcProvider ''https://bsc.drpc.org'' 0"
          "\<lambda>p. url p = ''https://bsc.drpc.org''" RPC_ENDPOINTS "[]" "''x''" "[]"]
    getRpcProvider_probe_then_ordered_fallback
      [of "\<lparr>providerCache = [56 \<mapsto> JsonRpcProvider ''https://bsc.drpc.org'' 0],
            constructed = 1, warned = []\<rparr>"
          56 "JsonRpcProvider ''https://bsc.drpc.org'' 0"
          "\<lambda>p. url p = ''https://bsc.blockrazor.xyz''" RPC_ENDPOINTS "[]" "''x''" "[]"]
    getRpcProvider_probe_then_ordered_fallback
      [of "\<lparr>providerCache = Map.empty, constructed = 1, warned = []\<rparr>"
          56 "JsonRpcProvider ''https://bsc.drpc.org'' 0"
          "\<lambda>p. url p = ''https://bsc.blockrazor.xyz''" RPC_ENDPOINTS
          "[''https://bsc-rpc.publicnode.com'']" "''https://bsc.blockrazor.xyz''"
          "[''https://bsc.drpc.org'']"]
  by (simp add: getRpcEndpoints_def RPC_ENDPOINTS_def numeral_2_eq_2 numeral_3_eq_3)

text \<open>
  C8: \<open>getRpcEndpoints\<close> returns the empty list for an unconfigured chain. In every
  reachable state, \<open>getRpcProvider\<close> for a chain whose pool is empty or unconfigured
  fails with \<open>No RPC endpoints configured for chain ID ...\<close> and changes nothing. For a
  non-empty pool whose candidates all fail (a cached handle, if any, failing its probe
  too), it fails with \<open>All RPC endpoints failed for chain ID ...\<close>.
\<close>

theorem endpoint_pool_failures:
  "(table chain = None \<longrightarrow> getRpcEndpoints table chain = [])
   \<and> (reachable table st \<and> getRpcEndpoints table chain = [] \<longrightarrow>
        getRpcProvider table getBlockNumber chain st =
          (Inl (new_Error (''No RPC endpoints configured for chain ID '' @ show_int chain)), st))
   \<and> (getRpcEndpoints table chain \<noteq> []
       \<and> (\<forall>p. providerCache st chain = Some p \<longrightarrow> \<not> getBlockNumber p)
       \<and> (\<forall>i < length (getRpcEndpoints table chain).
             \<not> getBlockNumber
                 (JsonRpcProvider (getRpcEndpoints table chain ! i) (constructed st + i))) \<longrightarrow>
        fst (getRpcProvider table getBlockNumber chain st) =
          Inl (new_Error (''All RPC endpoints failed for chain ID '' @ show_int chain)))"
proof (intro conjI impI)
  assume "table chain = None"
  then show "getRpcEndpoints table chain = []"
    by (simp add: getRpcEndpoints_def)
next
  assume a: "reachable table st \<and> getRpcEndpoints table chain = []"
  then have "cache_within_pool table st"
    by (simp add: reachable_cache_within_pool)
  with a have "providerCache st chain = None"
    unfolding cache_within_pool_def
    by (cases "providerCache st chain") (simp, metis empty_iff empty_set)
  with a show "getRpcProvider table getBlockNumber chain st =
      (Inl (new_Error (''No RPC endpoints configured for chain ID '' @ show_int chain)), st)"
    by (simp add: getRpcProvider_uncached)
next
  let ?es = "getRpcEndpoints table chain"
  let ?st0 = "st\<lparr>providerCache := (providerCache st)(chain := None)\<rparr>"
  assume a: "?es \<noteq> []
       \<and> (\<forall>p. providerCache st chain = Some p \<longrightarrow> \<not> getBlockNumber p)
       \<and> (\<forall>i < length ?es.
             \<not> getBlockNumber (JsonRpcProvider (?es ! i) (constructed st + i)))"
  have exhausted: "fst (tryEndpoints getBlockNumber chain ?es s) =
      Inl (new_Error (''All RPC endpoints failed for chain ID '' @ show_int chain))"
    if "constructed s = constructed st" for s
    using a that by (subst tryEndpoints_all_fail) simp_all
  show "fst (getRpcProvider table getBlockNumber chain st) =
      Inl (new_Error (''All RPC endpoints failed for chain ID '' @ show_int chain))"
  proof (cases "providerCache st chain")
    case None
    with a exhausted [of st] show ?thesis
      by (simp add: getRpcProvider_uncached)
  next
    case (Some p)
    with a have "\<not> getBlockNumber p" by simp
    with Some have "getRpcProvider table getBlockNumber chain st =
        getRpcProvider table getBlockNumber chain ?st0"
      by (rule getRpcProvider_evicts)
    moreover have "providerCache ?st0 chain = None" by simp
    ultimately show ?thesis
      using a exhausted [of ?st0] by (simp add: getRpcProvider_uncached getRpcEndpoints_def)
  qed
qed

theorem endpoint_pool_failures_witness:
  "RPC_ENDPOINTS 5 = None
   \<and> getRpcEndpoints RPC_ENDPOINTS 5 = []
   \<and> reachable RPC_ENDPOINTS initial_rpc
   \<and> getRpcProvider RPC_ENDPOINTS (\<lambda>p. False) 5 initial_rpc
       = (Inl (new_Error ''No RPC endpoints configured for chain ID 5''), initial_rpc)
   \<and> getRpcEndpoints RPC_ENDPOINTS 56 \<noteq> []
   \<and> fst (getRpcProvider RPC_ENDPOINTS (\<lambda>p. False) 56 initial_rpc)
       = Inl (new_Error ''All RPC endpoints failed for chain ID 56'')"
  using endpoint_pool_failures [of RPC_ENDPOINTS 5 initial_rpc "\<lambda>p. False"]
    endpoint_pool_failures [of RPC_ENDPOINTS 56 initial_rpc "\<lambda>p. False"]
    reachable.initial [of RPC_ENDPOINTS]
  by (simp add: getRpcEndpoints_def RPC_ENDPOINTS_def show_int_def show_nat.simps)

section \<open>write: results\<close>

lemma decode_handler_rethrows: "decode_handler parse e = Inl e"
  by (simp add: decode_handler_def try_catch_def split: option.splits sum.splits)

lemma write_rethrows_preflight_error:
  assumes "getWriteContract (getSigner env) config store = (Inr c, calls)"
    and "staticCall env c method arguments = Some preflightErr"
  shows "fst (write env config store method arguments st)
           = (Inl preflightErr, calls @ [StaticCall method])"
  using assms
  by (simp add: write_def write_body_def try_catch_def decode_handler_rethrows)

lemma write_surfaces_raw_error:
  "fst (write_body env config store method arguments) = Inl e \<Longrightarrow>
   fst (fst (write env config store method arguments st)) = Inl e"
  by (cases "write_body env config store method arguments")
    (simp add: write_def try_catch_def decode_handler_rethrows)

lemmas write_eval =
  write_def write_body_def getWriteContract_def try_catch_def decode_handler_def
  extractRevertData_def js_or_def truthy_def revert_message_def
  isConnected_def walletProvider_def connectedWallet_def store_chainId_def connectedChain_def
  reverting_env_def revert_error_def wallet_on_56_def token_on_56_def
  insufficient_balance_payload_def initial_client_def new_Error_def

text \<open>
  C2: a write whose preflight fails with a decodable \<open>Error(string)\<close> payload for
  \<open>Insufficient balance\<close> surfaces a failure whose message is exactly
  \<open>Insufficient balance\<close>, and does not submit. The code does not submit, but the
  failure it surfaces is the raw simulation error: the payload is extracted and decoded
  to \<open>Insufficient balance\<close>, the decoded error is thrown inside the \<open>try\<close> block
  whose own \<open>catch\<close> replaces it by the original error, and the outer handler repeats
  this.
\<close>

theorem write_preflight_revert_not_decoded:
  "write reverting_env token_on_56 wallet_on_56 ''transfer'' [] initial_client
     = ((Inl revert_error, [GetSigner, StaticCall ''transfer'']), initial_client)
   \<and> extractRevertData revert_error = Some insufficient_balance_payload
   \<and> parseError reverting_env insufficient_balance_payload
       = Inr (Some \<lparr>name = ''Error'', args = [''Insufficient balance'']\<rparr>)
   \<and> revert_message (Some \<lparr>name = ''Error'', args = [''Insufficient balance'']\<rparr>)
       = ''Insufficient balance''
   \<and> message revert_error \<noteq> ''Insufficient balance''"
  by (simp add: write_eval)

text \<open>
  What \<open>write\<close> does once both checks pass: every step is taken on the contract whose
  runner is the signer of the wallet's channel.
\<close>

lemma write_on_signer:
  assumes "isConnected store" and "walletProvider store = Some ch"
    and "store_chainId store = Some (chainId config)"
  shows "fst (write env config store m arguments st) =
     (case getSigner env ch of
        Some e \<Rightarrow> (Inl e, [GetSigner])
      | None \<Rightarrow>
          (case staticCall env \<lparr>target = address config, runner = SignerRunner ch\<rparr>
                  m arguments of
             Some e \<Rightarrow> (Inl e, [GetSigner, StaticCall m])
           | None \<Rightarrow>
               (send env \<lparr>target = address config, runner = SignerRunner ch\<rparr>
                  m arguments,
                [GetSigner, StaticCall m, SendTransaction m])))"
  using assms
  by (simp add: write_def write_body_def getWriteContract_def try_catch_def
      decode_handler_rethrows split: option.splits sum.splits)

lemma write_not_connected:
  "\<not> isConnected store \<or> walletProvider store = None \<Longrightarrow>
   fst (write env config store m arguments st)
     = (Inl (new_Error ''Wallet not connected''), [])"
  by (auto simp: write_def write_body_def getWriteContract_def try_catch_def
      decode_handler_rethrows)

lemma write_wrong_network:
  "isConnected store \<Longrightarrow> walletProvider store \<noteq> None \<Longrightarrow>
   store_chainId store \<noteq> Some (chainId config) \<Longrightarrow>
   fst (write env config store m arguments st)
     = (Inl (new_Error (''Wrong network. Please switch to chain ''
                          @ show_int (chainId config))), [])"
  by (auto simp: write_def write_body_def getWriteContract_def try_catch_def
      decode_handler_rethrows)

lemma write_state: "snd (write env config store m arguments st) = st\<lparr>submitting := False\<rparr>"
  by (simp add: write_def split: prod.splits)

lemma write_depends_on_signer_contract_only:
  assumes gs: "getSigner env2 = getSigner env"
    and sc: "\<forall>ch. staticCall env2 \<lparr>target = address config, runner = SignerRunner ch\<rparr>
                 = staticCall env \<lparr>target = address config, runner = SignerRunner ch\<rparr>"
    and sd: "\<forall>ch. send env2 \<lparr>target = address config, runner = SignerRunner ch\<rparr>
                 = send env \<lparr>target = address config, runner = SignerRunner ch\<rparr>"
  shows "write env2 config store m arguments st
           = write env config store m arguments st"
proof -
  have "fst (write env2 config store m arguments st)
          = fst (write env config store m arguments st)"
  proof (cases "isConnected store \<and> walletProvider store \<noteq> None")
    case False
    then have "\<not> isConnected store \<or> walletProvider store = None" by simp
    then show ?thesis by (simp add: write_not_connected)
  next
    case True
    then obtain ch where ch: "walletProvider store = Some ch" by auto
    show ?thesis
    proof (cases "store_chainId store = Some (chainId config)")
      case False
      with True show ?thesis by (simp add: write_wrong_network)
    next
      case right: True
      from sc have "staticCall env2 \<lparr>target = address config, runner = SignerRunner ch\<rparr>
                      = staticCall env \<lparr>target = address config, runner = SignerRunner ch\<rparr>"
        by blast
      moreover from sd have "send env2 \<lparr>target = address config, runner = SignerRunner ch\<rparr>
                      = send env \<lparr>target = address config, runner = SignerRunner ch\<rparr>"
        by blast
      ultimately show ?thesis
        using True ch right by (simp add: write_on_signer gs split: option.splits)
    qed
  qed
  then show ?thesis
    by (simp add: prod_eq_iff write_state)
qed

text \<open>
  C5: a write fails before any call leaves the process, with \<open>Wallet not connected\<close>
  when the signer is not connected (or exposes no channel) and with
  \<open>Wrong network. ...\<close> when it is connected on another chain than the contract's.
  A contract that \<open>getWriteContract\<close> returns runs on the signer of the wallet's own
  channel, on the contract's chain. Once both checks pass, \<open>write\<close> asks that wallet
  for its signer and makes the preflight and the submission on exactly that signer's
  contract. What a contract on any other runner, such as a provider of the endpoint
  pool, would answer has no influence on what \<open>write\<close> returns.
\<close>

theorem write_fails_fast_on_signer:
  "(\<not> isConnected store \<or> walletProvider store = None \<longrightarrow>
      fst (write env config store m arguments st)
        = (Inl (new_Error ''Wallet not connected''), []))
   \<and> (isConnected store \<and> walletProvider store \<noteq> None
       \<and> store_chainId store \<noteq> Some (chainId config) \<longrightarrow>
      fst (write env config store m arguments st)
        = (Inl (new_Error (''Wrong network. Please switch to chain ''
                             @ show_int (chainId config))), []))
   \<and> (getWriteContract (getSigner env) config store = (Inr c, calls) \<longrightarrow>
      (\<exists>ch. walletProvider store = Some ch \<and> runner c = SignerRunner ch)
      \<and> isConnected store \<and> store_chainId store = Some (chainId config))
   \<and> (isConnected store \<and> walletProvider store = Some ch
       \<and> store_chainId store = Some (chainId config) \<longrightarrow>
      fst (write env config store m arguments st) =
        (case getSigner env ch of
           Some e \<Rightarrow> (Inl e, [GetSigner])
         | None \<Rightarrow>
             (case staticCall env \<lparr>target = address config, runner = SignerRunner ch\<rparr>
                     m arguments of
                Some e \<Rightarrow> (Inl e, [GetSigner, StaticCall m])
              | None \<Rightarrow>
                  (send env \<lparr>target = address config, runner = SignerRunner ch\<rparr>
                     m arguments,
                   [GetSigner, StaticCall m, SendTransaction m]))))
   \<and> (getSigner env2 = getSigner env
       \<and> (\<forall>k. staticCall env2 \<lparr>target = address config, runner = SignerRunner k\<rparr>
                 = staticCall env \<lparr>target = address config, runner = SignerRunner k\<rparr>)
       \<and> (\<forall>k. send env2 \<lparr>target = address config, runner = SignerRunner k\<rparr>
                 = send env \<lparr>target = address config, runner = SignerRunner k\<rparr>) \<longrightarrow>
      write env2 config store m arguments st
        = write env config store m arguments st)"
proof (intro conjI impI)
  assume "\<not> isConnected store \<or> walletProvider store = None"
  then show "fst (write env config store m arguments st)
        = (Inl (new_Error ''Wallet not connected''), [])"
    by (rule write_not_connected)
next
  assume "isConnected store \<and> walletProvider store \<noteq> None
       \<and> store_chainId store \<noteq> Some (chainId config)"
  then show "fst (write env config store m arguments st)
        = (Inl (new_Error (''Wrong network. Please switch to chain ''
                             @ show_int (chainId config))), [])"
    by (simp add: write_wrong_network)
next
  assume a: "getWriteContract (getSigner env) config store = (Inr c, calls)"
  then show "\<exists>ch. walletProvider store = Some ch \<and> runner c = SignerRunner ch"
    by (auto simp: getWriteContract_def split: option.splits if_splits)
  from a show "isConnected store"
    by (auto simp: getWriteContract_def split: option.splits if_splits)
  from a show "store_chainId store = Some (chainId config)"
    by (auto simp: getWriteContract_def split: option.splits if_splits)
next
  assume "isConnected store \<and> walletProvider store = Some ch
       \<and> store_chainId store = Some (chainId config)"
  then show "fst (write env config store m arguments st) =
        (case getSigner env ch of
           Some e \<Rightarrow> (Inl e, [GetSigner])
         | None \<Rightarrow>
             (case staticCall env \<lparr>target = address config, runner = SignerRunner ch\<rparr>
                     m arguments of
                Some e \<Rightarrow> (Inl e, [GetSigner, StaticCall m])
              | None \<Rightarrow>
                  (send env \<lparr>target = address config, runner = SignerRunner ch\<rparr>
                     m arguments,
                   [GetSigner, StaticCall m, SendTransaction m])))"
    by (simp add: write_on_signer)
next
  assume "getSigner env2 = getSigner env
       \<and> (\<forall>k. staticCall env2 \<lparr>target = address config, runner = SignerRunner k\<rparr>
                 = staticCall env \<lparr>target = address config, runner = SignerRunner k\<rparr>)
       \<and> (\<forall>k. send env2 \<lparr>target = address config, runner = SignerRunner k\<rparr>
                 = send env \<lparr>target = address config, runner = SignerRunner k\<rparr>)"
  then show "write env2 config store m arguments st
        = write env config store m arguments st"
    by (intro write_depends_on_signer_contract_only) simp_all
qed


theorem write_fails_fast_on_signer_witness:
  "\<not> isConnected \<lparr>wallets = []\<rparr>
   \<and> fst (write reverting_env token_on_56 \<lparr>wallets = []\<rparr> ''transfer'' [] initial_client)
       = (Inl (new_Error ''Wallet not connected''), [])
   \<and> walletProvider \<lparr>wallets = [\<lparr>provider = None, chains = [56]\<rparr>]\<rparr> = None
   \<and> fst (write reverting_env token_on_56 \<lparr>wallets = [\<lparr>provider = None, chains = [56]\<rparr>]\<rparr>
            ''transfer'' [] initial_client)
       = (Inl (new_Error ''Wallet not connected''), [])
   \<and> isConnected \<lparr>wallets = [\<lparr>provider = Some 0, chains = [1]\<rparr>]\<rparr>
   \<and> walletProvider \<lparr>wallets = [\<lparr>provider = Some 0, chains = [1]\<rparr>]\<rparr> \<noteq> None
   \<and> store_chainId \<lparr>wallets = [\<lparr>provider = Some 0, chains = [1]\<rparr>]\<rparr>
       \<noteq> Some (chainId token_on_56)
   \<and> fst (write reverting_env token_on_56 \<lparr>wallets = [\<lparr>provider = Some 0, chains = [1]\<rparr>]\<rparr>
            ''transfer'' [] initial_client)
       = (Inl (new_Error ''Wrong network. Please switch to chain 56''), [])
   \<and> getWriteContract (getSigner reverting_env) token_on_56 wallet_on_56
       = (Inr \<lparr>target = address token_on_56, runner = SignerRunner 0\<rparr>, [GetSigner])
   \<and> isConnected wallet_on_56
   \<and> walletProvider wallet_on_56 = Some 0
   \<and> store_chainId wallet_on_56 = Some (chainId token_on_56)
   \<and> fst (write runner_telling_env token_on_56 wallet_on_56 ''transfer'' [] initial_client)
       = (Inr ''signer'', [GetSigner, StaticCall ''transfer'', SendTransaction ''transfer''])
   \<and> send (runner_telling_env\<lparr>send := \<lambda>c _ _. case runner c of
                                                SignerRunner _ \<Rightarrow> Inr ''signer''
                                              | _ \<Rightarrow> Inl (new_Error ''pool down'')\<rparr>)
         \<lparr>target = address token_on_56,
          runner = RpcRunner (JsonRpcProvider ''https://bsc.drpc.org'' 0)\<rparr> ''transfer'' []
       \<noteq> send runner_telling_env
         \<lparr>target = address token_on_56,
          runner = RpcRunner (JsonRpcProvider ''https://bsc.drpc.org'' 0)\<rparr> ''transfer'' []
   \<and> write (runner_telling_env\<lparr>send := \<lambda>c _ _. case runner c of
                                                SignerRunner _ \<Rightarrow> Inr ''signer''
                                              | _ \<Rightarrow> Inl (new_Error ''pool down'')\<rparr>)
         token_on_56 wallet_on_56 ''transfer'' [] initial_client
       = write runner_telling_env token_on_56 wallet_on_56 ''transfer'' [] initial_client"
proof -
  let ?env2 = "runner_telling_env\<lparr>send := \<lambda>c _ _. case runner c of
                                                SignerRunner _ \<Rightarrow> Inr ''signer''
                                              | _ \<Rightarrow> Inl (new_Error ''pool down'')\<rparr>"
  let ?pool = "\<lparr>target = address token_on_56,
                 runner = RpcRunner (JsonRpcProvider ''https://bsc.drpc.org'' 0)\<rparr>"
  have off: "\<not> isConnected \<lparr>wallets = []\<rparr>"
    by (simp add: isConnected_def connectedWallet_def)
  have bare: "walletProvider \<lparr>wallets = [\<lparr>provider = None, chains = [56]\<rparr>]\<rparr> = None"
    by (simp add: walletProvider_def connectedWallet_def)
  have other: "isConnected \<lparr>wallets = [\<lparr>provider = Some 0, chains = [1]\<rparr>]\<rparr>
      \<and> walletProvider \<lparr>wallets = [\<lparr>provider = Some 0, chains = [1]\<rparr>]\<rparr> \<noteq> None
      \<and> store_chainId \<lparr>wallets = [\<lparr>provider = Some 0, chains = [1]\<rparr>]\<rparr>
            \<noteq> Some (chainId token_on_56)"
    by (simp add: isConnected_def walletProvider_def connectedWallet_def store_chainId_def
        connectedChain_def token_on_56_def)
  have on56: "isConnected wallet_on_56 \<and> walletProvider wallet_on_56 = Some 0
      \<and> store_chainId wallet_on_56 = Some (chainId token_on_56)"
    by (simp add: isConnected_def walletProvider_def connectedWallet_def store_chainId_def
        connectedChain_def token_on_56_def wallet_on_56_def)
  have rendered: "show_int (chainId token_on_56) = ''56''"
    by (simp add: token_on_56_def show_int_def show_nat.simps)
  have granted: "getWriteContract (getSigner reverting_env) token_on_56 wallet_on_56
      = (Inr \<lparr>target = address token_on_56, runner = SignerRunner 0\<rparr>, [GetSigner])"
    using on56 by (simp add: getWriteContract_def reverting_env_def)
  have agree: "getSigner ?env2 = getSigner runner_telling_env
      \<and> (\<forall>k. staticCall ?env2 \<lparr>target = address token_on_56, runner = SignerRunner k\<rparr>
             = staticCall runner_telling_env
                 \<lparr>target = address token_on_56, runner = SignerRunner k\<rparr>)
      \<and> (\<forall>k. send ?env2 \<lparr>target = address token_on_56, runner = SignerRunner k\<rparr>
             = send runner_telling_env
                 \<lparr>target = address token_on_56, runner = SignerRunner k\<rparr>)"
    by (simp add: runner_telling_env_def)
  have differ: "send ?env2 ?pool ''transfer'' [] \<noteq> send runner_telling_env ?pool ''transfer'' []"
    by (simp add: runner_telling_env_def)
  have c1: "fst (write reverting_env token_on_56 \<lparr>wallets = []\<rparr> ''transfer'' [] initial_client)
       = (Inl (new_Error ''Wallet not connected''), [])"
    by (rule write_fails_fast_on_signer [THEN conjunct1, rule_format]) (simp add: off)
  have c1b: "fst (write reverting_env token_on_56
                   \<lparr>wallets = [\<lparr>provider = None, chains = [56]\<rparr>]\<rparr>
                   ''transfer'' [] initial_client)
       = (Inl (new_Error ''Wallet not connected''), [])"
    by (rule write_fails_fast_on_signer [THEN conjunct1, rule_format]) (simp add: bare)
  have "fst (write reverting_env token_on_56
                  \<lparr>wallets = [\<lparr>provider = Some 0, chains = [1]\<rparr>]\<rparr>
                  ''transfer'' [] initial_client)
       = (Inl (new_Error (''Wrong network. Please switch to chain ''
                            @ show_int (chainId token_on_56))), [])"
    by (rule write_fails_fast_on_signer [THEN conjunct2, THEN conjunct1, rule_format])
      (rule other)
  then have c2: "fst (write reverting_env token_on_56
                  \<lparr>wallets = [\<lparr>provider = Some 0, chains = [1]\<rparr>]\<rparr>
                  ''transfer'' [] initial_client)
       = (Inl (new_Error ''Wrong network. Please switch to chain 56''), [])"
    by (simp only: rendered append.simps)
  have c3: "(\<exists>k. walletProvider wallet_on_56 = Some k
             \<and> runner \<lparr>target = address token_on_56, runner = SignerRunner 0\<rparr>
                 = SignerRunner k)
        \<and> isConnected wallet_on_56 \<and> store_chainId wallet_on_56 = Some (chainId token_on_56)"
    by (rule write_fails_fast_on_signer
          [THEN conjunct2, THEN conjunct2, THEN conjunct1, rule_format])
      (rule granted)
  have "fst (write runner_telling_env token_on_56 wallet_on_56 ''transfer'' [] initial_client)
       = (case getSigner runner_telling_env 0 of
           Some e \<Rightarrow> (Inl e, [GetSigner])
         | None \<Rightarrow>
             (case staticCall runner_telling_env
                     \<lparr>target = address token_on_56, runner = SignerRunner 0\<rparr>
                     ''transfer'' [] of
                Some e \<Rightarrow> (Inl e, [GetSigner, StaticCall ''transfer''])
              | None \<Rightarrow>
                  (send runner_telling_env
                     \<lparr>target = address token_on_56, runner = SignerRunner 0\<rparr>
                     ''transfer'' [],
                   [GetSigner, StaticCall ''transfer'', SendTransaction ''transfer''])))"
    by (rule write_fails_fast_on_signer
          [THEN conjunct2, THEN conjunct2, THEN conjunct2, THEN conjunct1, rule_format])
      (rule on56)
  then have c4: "fst (write runner_telling_env token_on_56 wallet_on_56 ''transfer'' []
                  initial_client)
       = (Inr ''signer'', [GetSigner, StaticCall ''transfer'', SendTransaction ''transfer''])"
    by (simp add: runner_telling_env_def)
  have c5: "write ?env2 token_on_56 wallet_on_56 ''transfer'' [] initial_client
       = write runner_telling_env token_on_56 wallet_on_56 ''transfer'' [] initial_client"
    by (rule write_fails_fast_on_signer
          [THEN conjunct2, THEN conjunct2, THEN conjunct2, THEN conjunct2, rule_format])
      (rule agree)
  show ?thesis
    by (simp only: off bare other on56 granted differ c1 c1b c2 c4 c5 simp_thms)
qed

text \<open>
  C9: a signer that is not connected is not on the requested chain either, and when both
  checks of \<open>getWriteContract\<close> are violated the failure is \<open>Wallet not connected\<close>,
  never the wrong-network error: the connection check comes first.
\<close>

theorem not_connected_precedes_wrong_network:
  "(\<not> isConnected store \<longrightarrow> store_chainId store \<noteq> Some (chainId config))
   \<and> ((\<not> isConnected store \<or> walletProvider store = None)
       \<and> store_chainId store \<noteq> Some (chainId config) \<longrightarrow>
      getWriteContract gs config store = (Inl (new_Error ''Wallet not connected''), [])
      \<and> fst (write env config store method arguments st)
          = (Inl (new_Error ''Wallet not connected''), [])
      \<and> new_Error ''Wallet not connected''
          \<noteq> new_Error (''Wrong network. Please switch to chain '' @ show_int (chainId config)))"
proof (intro conjI impI)
  assume "\<not> isConnected store"
  then show "store_chainId store \<noteq> Some (chainId config)"
    by (simp add: isConnected_def store_chainId_def connectedChain_def)
next
  assume a: "(\<not> isConnected store \<or> walletProvider store = None)
       \<and> store_chainId store \<noteq> Some (chainId config)"
  then show nc: "getWriteContract gs config store = (Inl (new_Error ''Wallet not connected''), [])"
    for gs
    by (auto simp: getWriteContract_def)
  show "fst (write env config store method arguments st)
          = (Inl (new_Error ''Wallet not connected''), [])"
    by (simp add: write_def write_body_def nc try_catch_def decode_handler_rethrows)
  show "new_Error ''Wallet not connected''
          \<noteq> new_Error (''Wrong network. Please switch to chain '' @ show_int (chainId config))"
    by (simp add: new_Error_def)
qed

theorem not_connected_precedes_wrong_network_witness:
  "\<not> isConnected \<lparr>wallets = []\<rparr>
   \<and> store_chainId \<lparr>wallets = []\<rparr> \<noteq> Some (chainId token_on_56)
   \<and> getWriteContract (\<lambda>_. None) token_on_56 \<lparr>wallets = []\<rparr>
       = (Inl (new_Error ''Wallet not connected''), [])
   \<and> fst (write reverting_env token_on_56 \<lparr>wallets = []\<rparr> ''transfer'' [] initial_client)
       = (Inl (new_Error ''Wallet not connected''), [])"
  using not_connected_precedes_wrong_network
    [of "\<lparr>wallets = []\<rparr>" token_on_56 "\<lambda>_. None" reverting_env "''transfer''" "[]"
        initial_client]
  by (simp add: isConnected_def connectedWallet_def)

end
